theory Spec2Isabelle
  imports Complex_Main
begin

section \<open>The video player component of \<^verbatim>\<open>src/VideoPlayer.tsx\<close>\<close>

text \<open>
  The component keeps twelve \<^verbatim>\<open>useState\<close> cells and one \<^verbatim>\<open>useRef\<close> to the
  \<^verbatim>\<open>video\<close> element. Each handler is embedded as a function
  that takes the browser side (the ref and the document) and the state cells, and returns
  both as the handler leaves them; one handler runs to completion per event, the next one
  sees the cells the previous one wrote.

  JavaScript numbers are idealised as real numbers: rounding, \<^verbatim>\<open>NaN\<close> and the
  infinities are outside the model. A handler that reads \<^verbatim>\<open>Number(e.target.value)\<close>
  takes that number as its argument. The \<^verbatim>\<open>video\<close> element is a record of the properties
  the handlers read or write; an assignment stores the value, \<^verbatim>\<open>play()\<close> and
  \<^verbatim>\<open>pause()\<close> clear and set \<^verbatim>\<open>paused\<close>. What the browser does on its own
  (range checks of its setters, seeking, loading, promises) is not part of the component
  and is not modelled.
\<close>

subsection \<open>Data\<close>

record video =
  video_paused :: bool
  video_currentTime :: real
  video_duration :: real
  video_volume :: real
  video_muted :: bool
  video_playbackRate :: real
  video_requestFullscreen :: bool \<comment> \<open>whether the method \<^verbatim>\<open>requestFullscreen\<close> exists\<close>

record browser =
  videoRef :: "video option" \<comment> \<open>\<^verbatim>\<open>videoRef.current\<close>, \<^verbatim>\<open>null\<close> as \<open>None\<close>\<close>
  document_exitFullscreen :: bool \<comment> \<open>whether the method \<^verbatim>\<open>document.exitFullscreen\<close> exists\<close>
  document_fullscreen :: bool \<comment> \<open>whether the document shows an element fullscreen\<close>

record state =
  isPlaying :: bool
  currentTime :: real
  duration :: real
  volume :: real
  isMuted :: bool
  isFullscreen :: bool
  darkMode :: bool
  videoFile :: "string option"
  playbackRate :: real
  hue :: real
  saturation :: real
  brightness :: real

text \<open>The arguments of the \<^verbatim>\<open>useState\<close> calls, lines 16 to 27.\<close>

definition initial :: state where
  "initial = \<lparr> isPlaying = False, currentTime = 0, duration = 0, volume = 1,
     isMuted = False, isFullscreen = False, darkMode = True, videoFile = None,
     playbackRate = 1, hue = 0, saturation = 100, brightness = 100 \<rparr>"

subsection \<open>Time stamps\<close>

text \<open>
  \<^verbatim>\<open>Number.prototype.toString\<close> on an integral value prints its decimal digits, with a
  minus sign in front of a negative one (from \<open>10\<^sup>2\<^sup>1\<close> on JavaScript switches to
  exponent notation, far beyond any media position; that range is not modelled).
\<close>

definition digit :: "nat \<Rightarrow> char" where
  "digit d = ''0123456789'' ! d"

fun digits :: "nat \<Rightarrow> string" where
  "digits n = (if n < 10 then [digit n] else digits (n div 10) @ [digit (n mod 10)])"

declare digits.simps [simp del]

definition toString :: "int \<Rightarrow> string" where
  "toString k = (if k < 0 then CHR ''-'' # digits (nat (- k)) else digits (nat k))"

text \<open>\<^verbatim>\<open>padStart(n, c)\<close> with a filler of one character.\<close>

definition padStart :: "nat \<Rightarrow> char \<Rightarrow> string \<Rightarrow> string" where
  "padStart n c s = replicate (n - length s) c @ s"

text \<open>
  The remainder operator \<^verbatim>\<open>%\<close> of JavaScript truncates the quotient towards zero, so
  the result has the sign of the dividend. The divisor is the constant 60 here.
\<close>

definition trunc :: "real \<Rightarrow> int" where
  "trunc q = (if 0 \<le> q then \<lfloor>q\<rfloor> else \<lceil>q\<rceil>)"

definition js_rem :: "real \<Rightarrow> real \<Rightarrow> real" where
  "js_rem x y = x - y * of_int (trunc (x / y))"

definition formatTime :: "real \<Rightarrow> string" where
  "formatTime seconds =
     (let m = padStart 2 CHR ''0'' (toString \<lfloor>seconds / 60\<rfloor>);
          s = padStart 2 CHR ''0'' (toString \<lfloor>js_rem seconds 60\<rfloor>)
      in m @ '':'' @ s)"

subsection \<open>The specification's vocabulary\<close>

text \<open>
  These three definitions follow the words of the specification, not the code; the
  theorems below compare them with the code. \<open>spec_pad2\<close> is a number written with two
  digits at least, a leading zero filling the gap; \<open>spec_mod\<close> is the remainder that goes
  with the floored quotient; \<open>clamp x lo hi\<close> brings \<open>x\<close> into the interval from \<open>lo\<close> to
  \<open>hi\<close>.
\<close>

definition spec_pad2 :: "nat \<Rightarrow> string" where
  "spec_pad2 n = (if n < 10 then [CHR ''0'', digit n] else digits n)"

definition spec_mod :: "real \<Rightarrow> real \<Rightarrow> real" where
  "spec_mod x y = x - y * of_int \<lfloor>x / y\<rfloor>"

definition clamp :: "real \<Rightarrow> real \<Rightarrow> real \<Rightarrow> real" where
  "clamp x lo hi = min hi (max lo x)"

subsection \<open>Handlers\<close>

definition handlePlayPause :: "browser \<Rightarrow> state \<Rightarrow> browser \<times> state" where
  "handlePlayPause b s =
     (case videoRef b of
        None \<Rightarrow> (b, s)
      | Some v \<Rightarrow>
          if video_paused v
          then (b\<lparr>videoRef := Some (v\<lparr>video_paused := False\<rparr>)\<rparr>, s\<lparr>isPlaying := True\<rparr>)
          else (b\<lparr>videoRef := Some (v\<lparr>video_paused := True\<rparr>)\<rparr>, s\<lparr>isPlaying := False\<rparr>))"

definition handleTimeUpdate :: "browser \<Rightarrow> state \<Rightarrow> browser \<times> state" where
  "handleTimeUpdate b s =
     (case videoRef b of
        None \<Rightarrow> (b, s)
      | Some v \<Rightarrow> (b, s\<lparr>currentTime := video_currentTime v\<rparr>))"

definition handleLoadedMetadata :: "browser \<Rightarrow> state \<Rightarrow> browser \<times> state" where
  "handleLoadedMetadata b s =
     (case videoRef b of
        None \<Rightarrow> (b, s)
      | Some v \<Rightarrow> (b, s\<lparr>duration := video_duration v\<rparr>))"

definition handleSeek :: "real \<Rightarrow> browser \<Rightarrow> state \<Rightarrow> browser \<times> state" where
  "handleSeek x b s =
     (case videoRef b of
        None \<Rightarrow> (b, s)
      | Some v \<Rightarrow>
          (b\<lparr>videoRef := Some (v\<lparr>video_currentTime := x\<rparr>)\<rparr>, s\<lparr>currentTime := x\<rparr>))"

definition handleVolume :: "real \<Rightarrow> browser \<Rightarrow> state \<Rightarrow> browser \<times> state" where
  "handleVolume vol b s =
     (let b' = (case videoRef b of
                  None \<Rightarrow> b
                | Some v \<Rightarrow> b\<lparr>videoRef := Some (v\<lparr>video_volume := vol\<rparr>)\<rparr>)
      in (b', s\<lparr>volume := vol, isMuted := (vol = 0)\<rparr>))"

definition handleMute :: "browser \<Rightarrow> state \<Rightarrow> browser \<times> state" where
  "handleMute b s =
     (case videoRef b of
        None \<Rightarrow> (b, s)
      | Some v \<Rightarrow>
          (b\<lparr>videoRef := Some (v\<lparr>video_muted := \<not> isMuted s\<rparr>)\<rparr>,
           s\<lparr>isMuted := \<not> isMuted s\<rparr>))"

definition handleFullscreen :: "browser \<Rightarrow> state \<Rightarrow> browser \<times> state" where
  "handleFullscreen b s =
     (case videoRef b of
        None \<Rightarrow> (b, s)
      | Some v \<Rightarrow>
          if \<not> isFullscreen s
          then ((if video_requestFullscreen v then b\<lparr>document_fullscreen := True\<rparr> else b),
                s\<lparr>isFullscreen := True\<rparr>)
          else ((if document_exitFullscreen b then b\<lparr>document_fullscreen := False\<rparr> else b),
                s\<lparr>isFullscreen := False\<rparr>))"

text \<open>
  \<^verbatim>\<open>e.target.files?.[0]\<close> is the chosen file, if any; \<^verbatim>\<open>URL.createObjectURL\<close>
  is the parameter \<open>createObjectURL\<close>.
\<close>

definition handleFileChange ::
  "('f \<Rightarrow> string) \<Rightarrow> 'f option \<Rightarrow> browser \<Rightarrow> state \<Rightarrow> browser \<times> state" where
  "handleFileChange createObjectURL file b s =
     (case file of
        None \<Rightarrow> (b, s)
      | Some f \<Rightarrow>
          (b, s\<lparr>videoFile := Some (createObjectURL f), currentTime := 0, isPlaying := False\<rparr>))"

definition handleDarkMode :: "browser \<Rightarrow> state \<Rightarrow> browser \<times> state" where
  "handleDarkMode b s = (b, s\<lparr>darkMode := \<not> darkMode s\<rparr>)"

text \<open>\<^verbatim>\<open>!duration\<close> holds of the number 0 (and of \<^verbatim>\<open>NaN\<close>, which is not modelled).\<close>

definition handleSpeedPercent :: "real \<Rightarrow> browser \<Rightarrow> state \<Rightarrow> browser \<times> state" where
  "handleSpeedPercent percent b s =
     (case videoRef b of
        None \<Rightarrow> (b, s)
      | Some v \<Rightarrow>
          if duration s = 0 then (b, s)
          else
            let jump = duration s * (percent / 100);
                newTime = video_currentTime v + jump;
                newTime = (if newTime < 0 then 0 else newTime);
                newTime = (if newTime > duration s then duration s else newTime)
            in (b\<lparr>videoRef := Some (v\<lparr>video_currentTime := newTime\<rparr>)\<rparr>,
                s\<lparr>currentTime := newTime\<rparr>))"

definition handlePlaybackRate :: "real \<Rightarrow> browser \<Rightarrow> state \<Rightarrow> browser \<times> state" where
  "handlePlaybackRate rate b s =
     (let s' = s\<lparr>playbackRate := rate\<rparr>
      in case videoRef b of
           None \<Rightarrow> (b, s')
         | Some v \<Rightarrow> (b\<lparr>videoRef := Some (v\<lparr>video_playbackRate := rate\<rparr>)\<rparr>, s'))"

definition handleHue :: "real \<Rightarrow> browser \<Rightarrow> state \<Rightarrow> browser \<times> state" where
  "handleHue x b s = (b, s\<lparr>hue := x\<rparr>)"

definition handleSaturation :: "real \<Rightarrow> browser \<Rightarrow> state \<Rightarrow> browser \<times> state" where
  "handleSaturation x b s = (b, s\<lparr>saturation := x\<rparr>)"

definition handleBrightness :: "real \<Rightarrow> browser \<Rightarrow> state \<Rightarrow> browser \<times> state" where
  "handleBrightness x b s = (b, s\<lparr>brightness := x\<rparr>)"

text \<open>
  The effect of lines 121 to 125 runs after a render in which \<^verbatim>\<open>playbackRate\<close>
  changed, and copies the cell to the element.
\<close>

definition playbackRateEffect :: "browser \<Rightarrow> state \<Rightarrow> browser \<times> state" where
  "playbackRateEffect b s =
     (case videoRef b of
        None \<Rightarrow> (b, s)
      | Some v \<Rightarrow> (b\<lparr>videoRef := Some (v\<lparr>video_playbackRate := playbackRate s\<rparr>)\<rparr>, s))"

subsection \<open>Events\<close>

text \<open>One constructor per handler the component attaches, with the handler's input.\<close>

datatype 'f event =
    PlayPause
  | TimeUpdate
  | LoadedMetadata
  | Seek real
  | Volume real
  | Mute
  | Fullscreen
  | FileChange "'f option"
  | DarkMode
  | SpeedPercent real
  | PlaybackRate real
  | Hue real
  | Saturation real
  | Brightness real

fun dispatch :: "('f \<Rightarrow> string) \<Rightarrow> 'f event \<Rightarrow> browser \<times> state \<Rightarrow> browser \<times> state" where
  "dispatch mk PlayPause (b, s) = handlePlayPause b s"
| "dispatch mk TimeUpdate (b, s) = handleTimeUpdate b s"
| "dispatch mk LoadedMetadata (b, s) = handleLoadedMetadata b s"
| "dispatch mk (Seek x) (b, s) = handleSeek x b s"
| "dispatch mk (Volume x) (b, s) = handleVolume x b s"
| "dispatch mk Mute (b, s) = handleMute b s"
| "dispatch mk Fullscreen (b, s) = handleFullscreen b s"
| "dispatch mk (FileChange file) (b, s) = handleFileChange mk file b s"
| "dispatch mk DarkMode (b, s) = handleDarkMode b s"
| "dispatch mk (SpeedPercent x) (b, s) = handleSpeedPercent x b s"
| "dispatch mk (PlaybackRate x) (b, s) =
     (case handlePlaybackRate x b s of (b', s') \<Rightarrow> playbackRateEffect b' s')"
| "dispatch mk (Hue x) (b, s) = handleHue x b s"
| "dispatch mk (Saturation x) (b, s) = handleSaturation x b s"
| "dispatch mk (Brightness x) (b, s) = handleBrightness x b s"

fun run :: "('f \<Rightarrow> string) \<Rightarrow> 'f event list \<Rightarrow> browser \<times> state \<Rightarrow> browser \<times> state" where
  "run mk [] w = w"
| "run mk (e # es) w = run mk es (dispatch mk e w)"

subsection \<open>The invariant, the sliders and sample values\<close>

text \<open>
  The invariant the specification states for the session state, and what it takes of an
  event to keep it. The seek slider is declared with \<^verbatim>\<open>min={0}\<close> and
  \<^verbatim>\<open>max={duration}\<close> (lines 155 and 156), the speed slider with \<^verbatim>\<open>min={0.25}\<close> and
  \<^verbatim>\<open>max={2}\<close> (lines 187 and 188): an event that comes from a slider carries a value
  within its bounds. A notification is admissible when the element reports a position
  within 0 and the stored duration, or a duration that is not below the stored position.
\<close>

definition invariant :: "state \<Rightarrow> bool" where
  "invariant s =
     (0 \<le> currentTime s \<and> currentTime s \<le> duration s \<and>
      1 / 4 \<le> playbackRate s \<and> playbackRate s \<le> 2)"

fun admissible :: "'f event \<Rightarrow> browser \<times> state \<Rightarrow> bool" where
  "admissible (Seek x) (b, s) = (0 \<le> x \<and> x \<le> duration s)"
| "admissible (PlaybackRate r) (b, s) = (1 / 4 \<le> r \<and> r \<le> 2)"
| "admissible TimeUpdate (b, s) =
     (case videoRef b of
        None \<Rightarrow> True
      | Some v \<Rightarrow> 0 \<le> video_currentTime v \<and> video_currentTime v \<le> duration s)"
| "admissible LoadedMetadata (b, s) =
     (case videoRef b of
        None \<Rightarrow> True
      | Some v \<Rightarrow> currentTime s \<le> video_duration v)"
| "admissible _ (b, s) = True"

text \<open>Every event of the list is admissible in the state it meets.\<close>

fun admissible_run :: "('f \<Rightarrow> string) \<Rightarrow> 'f event list \<Rightarrow> browser \<times> state \<Rightarrow> bool" where
  "admissible_run mk [] w = True"
| "admissible_run mk (e # es) w = (admissible e w \<and> admissible_run mk es (dispatch mk e w))"

text \<open>
  Sample values for the examples: a paused element at second 5 of a medium of 60 seconds,
  and a browser whose ref holds the given element or nothing.
\<close>

definition demo_video :: video where
  "demo_video = \<lparr> video_paused = True, video_currentTime = 5, video_duration = 60,
     video_volume = 1, video_muted = False, video_playbackRate = 1,
     video_requestFullscreen = True \<rparr>"

definition demo_browser :: "video option \<Rightarrow> browser" where
  "demo_browser r = \<lparr> videoRef = r, document_exitFullscreen = True,
     document_fullscreen = False \<rparr>"

section \<open>Properties\<close>

subsection \<open>Time stamps\<close>

lemma digits_small: "n < 10 \<Longrightarrow> digits n = [digit n]"
  by (subst digits.simps) simp

lemma digits_step: "\<not> n < 10 \<Longrightarrow> digits n = digits (n div 10) @ [digit (n mod 10)]"
  by (subst digits.simps) simp

lemma length_digits_pos: "0 < length (digits n)"
  by (subst digits.simps) simp

lemma length_digits_large: "\<not> n < 10 \<Longrightarrow> 2 \<le> length (digits n)"
proof -
  assume "\<not> n < 10"
  then have "length (digits n) = Suc (length (digits (n div 10)))"
    by (simp add: digits_step)
  with length_digits_pos [of "n div 10"] show ?thesis by linarith
qed

lemma padStart_digits: "padStart 2 CHR ''0'' (digits n) = spec_pad2 n"
proof (cases "n < 10")
  case True
  then show ?thesis by (simp add: padStart_def spec_pad2_def digits_small)
next
  case False
  then show ?thesis
    using length_digits_large [of n] by (simp add: padStart_def spec_pad2_def)
qed

lemma js_rem_nonneg: "0 \<le> x \<Longrightarrow> 0 < y \<Longrightarrow> js_rem x y = spec_mod x y"
  by (simp add: js_rem_def spec_mod_def trunc_def)

lemma spec_mod_range:
  assumes "0 < y"
  shows "0 \<le> spec_mod x y \<and> spec_mod x y < y"
proof -
  have lo: "of_int \<lfloor>x / y\<rfloor> \<le> x / y" and hi: "x / y < of_int \<lfloor>x / y\<rfloor> + 1"
    by linarith+
  have x: "x / y * y = x" using assms by simp
  have "of_int \<lfloor>x / y\<rfloor> * y \<le> x / y * y"
    using lo assms by (intro mult_right_mono) simp_all
  moreover have "x / y * y < (of_int \<lfloor>x / y\<rfloor> + 1) * y"
    using hi assms by (intro mult_strict_right_mono) simp_all
  ultimately show ?thesis
    unfolding x by (simp add: spec_mod_def algebra_simps)
qed

text \<open>The seconds field is the whole seconds modulo 60, so it has exactly two digits.\<close>

lemma seconds_field: "\<lfloor>spec_mod s 60\<rfloor> = \<lfloor>s\<rfloor> mod 60"
proof -
  have d: "\<lfloor>s / 60\<rfloor> = \<lfloor>s\<rfloor> div 60"
    using floor_divide_real_eq_div [of 60 s] by simp
  have "spec_mod s 60 = s - of_int (60 * \<lfloor>s / 60\<rfloor>)"
    by (simp add: spec_mod_def)
  then have "\<lfloor>spec_mod s 60\<rfloor> = \<lfloor>s\<rfloor> - 60 * \<lfloor>s / 60\<rfloor>"
    by (simp only: floor_diff_of_int)
  then show ?thesis
    by (simp add: d minus_mult_div_eq_mod)
qed

text \<open>
  Claim C9. \<^verbatim>\<open>formatTime(125)\<close> is \<^verbatim>\<open>"02:05"\<close>, \<^verbatim>\<open>formatTime(5)\<close> is
  \<^verbatim>\<open>"00:05"\<close>, and for every non-negative number of seconds the result is the floored
  minutes written with two digits at least, a colon, and the floor of the seconds modulo 60
  written with two digits.
\<close>

theorem formatTime_MM_SS:
  "formatTime 125 = ''02:05'' \<and> formatTime 5 = ''00:05'' \<and>
   (0 \<le> s \<longrightarrow>
      formatTime s = spec_pad2 (nat \<lfloor>s / 60\<rfloor>) @ '':'' @ spec_pad2 (nat \<lfloor>spec_mod s 60\<rfloor>))"
proof (intro conjI impI)
  show "formatTime 125 = ''02:05''"
    by (simp add: formatTime_def js_rem_def trunc_def toString_def padStart_def
        digits_small digit_def)
  show "formatTime 5 = ''00:05''"
    by (simp add: formatTime_def js_rem_def trunc_def toString_def padStart_def
        digits_small digit_def)
next
  assume s: "0 \<le> s"
  then have m: "0 \<le> \<lfloor>s / 60\<rfloor>" by simp
  have r: "js_rem s 60 = spec_mod s 60"
    using s by (simp add: js_rem_nonneg)
  have "0 \<le> spec_mod s 60" using spec_mod_range [of 60 s] by simp
  then have q: "0 \<le> \<lfloor>spec_mod s 60\<rfloor>" by simp
  show "formatTime s = spec_pad2 (nat \<lfloor>s / 60\<rfloor>) @ '':'' @ spec_pad2 (nat \<lfloor>spec_mod s 60\<rfloor>)"
    using m q by (simp add: formatTime_def r toString_def padStart_digits)
qed

theorem formatTime_MM_SS_witness:
  "(0::real) \<le> 3725 \<and> formatTime 3725 = ''62:05''"
  using formatTime_MM_SS [of 3725]
  by (simp add: spec_pad2_def spec_mod_def digits_small digits_step digit_def)

subsection \<open>Jumping by a percentage\<close>

lemma clamp_other_order: "lo \<le> hi \<Longrightarrow> clamp x lo hi = max lo (min hi x)"
  by (simp add: clamp_def min_def max_def)

lemma clamp_range: "lo \<le> hi \<Longrightarrow> lo \<le> clamp x lo hi \<and> clamp x lo hi \<le> hi"
  by (simp add: clamp_def)

text \<open>
  Claim C1. With the element present and a duration other than 0 in the state,
  \<^verbatim>\<open>handleSpeedPercent(percent)\<close> sets the mirrored \<open>currentTime\<close> to the element's
  position before the call plus \<open>duration * percent / 100\<close>, clamped into the interval from
  0 to \<open>duration\<close>, and leaves the element at the same position. This holds for every
  percent, so for every non-zero percent between -100 and 100 too.
\<close>

theorem handleSpeedPercent_clamps:
  assumes "videoRef b = Some v" and "duration s \<noteq> 0"
  shows "currentTime (snd (handleSpeedPercent percent b s)) =
           clamp (video_currentTime v + duration s * percent / 100) 0 (duration s) \<and>
         map_option video_currentTime (videoRef (fst (handleSpeedPercent percent b s))) =
           Some (currentTime (snd (handleSpeedPercent percent b s)))"
  using assms by (simp add: handleSpeedPercent_def clamp_def Let_def min_def max_def)

text \<open>The scenario of the specification: 60 seconds, position 5, a jump of -10 percent.\<close>

theorem handleSpeedPercent_clamps_witness:
  "videoRef (demo_browser (Some demo_video)) = Some demo_video \<and>
   duration (initial\<lparr>duration := 60\<rparr>) \<noteq> 0 \<and>
   currentTime (snd (handleSpeedPercent (- 10) (demo_browser (Some demo_video))
     (initial\<lparr>duration := 60\<rparr>))) = 0"
  using handleSpeedPercent_clamps [of "demo_browser (Some demo_video)" demo_video
      "initial\<lparr>duration := 60\<rparr>" "- 10"]
  by (simp add: demo_browser_def demo_video_def clamp_def)

lemma handleSpeedPercent_forward_scenario:
  "currentTime (snd (handleSpeedPercent 10
     (demo_browser (Some (demo_video\<lparr>video_currentTime := 10\<rparr>)))
     (initial\<lparr>duration := 120\<rparr>))) = 22"
  by (simp add: handleSpeedPercent_def demo_browser_def Let_def)

subsection \<open>Volume and mute\<close>

text \<open>
  Claim C4. For every \<open>x\<close> from 0 to 1, \<^verbatim>\<open>handleVolume\<close> leaves the mirrored volume at
  \<open>x\<close> and the mirrored \<open>isMuted\<close> true exactly when \<open>x\<close> is 0; an element that is present
  receives the same volume.
\<close>

theorem handleVolume_mirrors:
  assumes "0 \<le> x" and "x \<le> 1"
  shows "volume (snd (handleVolume x b s)) = x \<and>
         isMuted (snd (handleVolume x b s)) = (x = 0) \<and>
         (\<forall>v. videoRef b = Some v \<longrightarrow>
            videoRef (fst (handleVolume x b s)) = Some (v\<lparr>video_volume := x\<rparr>))"
  by (simp add: handleVolume_def)

theorem handleVolume_mirrors_witness:
  "(0::real) \<le> 1 / 2 \<and> (1::real) / 2 \<le> 1 \<and>
   volume (snd (handleVolume (1 / 2) (demo_browser (Some demo_video)) initial)) = 1 / 2 \<and>
   \<not> isMuted (snd (handleVolume (1 / 2) (demo_browser (Some demo_video)) initial)) \<and>
   map_option video_volume
     (videoRef (fst (handleVolume (1 / 2) (demo_browser (Some demo_video)) initial)))
     = Some (1 / 2)"
  using handleVolume_mirrors [of "1 / 2" "demo_browser (Some demo_video)" initial]
  by (simp add: demo_browser_def)

text \<open>
  Claim C6. With the element present, one \<^verbatim>\<open>handleMute\<close> flips \<open>isMuted\<close>, a second one
  restores it, and the stored volume is the same after each of the two calls.
\<close>

theorem handleMute_twice:
  assumes "videoRef b = Some v"
  shows "(case handleMute b s of (b1, s1) \<Rightarrow>
           isMuted s1 = (\<not> isMuted s) \<and> volume s1 = volume s \<and>
           (case handleMute b1 s1 of (b2, s2) \<Rightarrow>
              isMuted s2 = isMuted s \<and> volume s2 = volume s))"
  using assms by (simp add: handleMute_def)

theorem handleMute_twice_witness:
  "videoRef (demo_browser (Some demo_video)) = Some demo_video \<and>
   (case handleMute (demo_browser (Some demo_video)) initial of (b1, s1) \<Rightarrow>
      isMuted s1 \<and> volume s1 = 1 \<and>
      (case handleMute b1 s1 of (b2, s2) \<Rightarrow> \<not> isMuted s2 \<and> volume s2 = 1))"
  using handleMute_twice [of "demo_browser (Some demo_video)" demo_video initial]
  by (simp add: demo_browser_def initial_def split: prod.splits)

subsection \<open>Loading a file\<close>

text \<open>
  Claim C7. Whatever the state before, \<^verbatim>\<open>handleFileChange\<close> with a file present stores
  the object URL of that file as the media source, sets \<open>currentTime\<close> to 0 and
  \<open>isPlaying\<close> to false.
\<close>

theorem handleFileChange_resets:
  "videoFile (snd (handleFileChange createObjectURL (Some f) b s)) = Some (createObjectURL f) \<and>
   currentTime (snd (handleFileChange createObjectURL (Some f) b s)) = 0 \<and>
   isPlaying (snd (handleFileChange createObjectURL (Some f) b s)) = False"
  by (simp add: handleFileChange_def)

text \<open>Only \<^verbatim>\<open>handleLoadedMetadata\<close> writes the duration.\<close>

lemma dispatch_duration:
  "e \<noteq> LoadedMetadata \<Longrightarrow> duration (snd (dispatch mk e w)) = duration (snd w)"
proof (cases w)
  case (Pair b s)
  assume "e \<noteq> LoadedMetadata"
  then show ?thesis
    unfolding Pair
    by (cases e)
      (simp_all add: handlePlayPause_def handleTimeUpdate_def handleSeek_def handleVolume_def
        handleMute_def handleFullscreen_def handleFileChange_def handleDarkMode_def
        handleSpeedPercent_def handlePlaybackRate_def playbackRateEffect_def handleHue_def
        handleSaturation_def handleBrightness_def Let_def split: option.split)
qed

lemma run_duration:
  "LoadedMetadata \<notin> set es \<Longrightarrow> duration (snd (run mk es w)) = duration (snd w)"
  by (induction es arbitrary: w) (auto simp: dispatch_duration)

text \<open>
  Claim C10. \<^verbatim>\<open>handleFileChange\<close> leaves the browser side and the cells duration, volume,
  \<open>isMuted\<close>, \<open>playbackRate\<close>, hue, saturation, brightness, \<open>darkMode\<close> and \<open>isFullscreen\<close> as
  they were. The duration of the previous medium stays through every later sequence of
  events without a metadata-ready notification, and that notification replaces it by the
  duration the element reports.
\<close>

theorem handleFileChange_frame:
  "fst (handleFileChange mk file b s) = b \<and>
   duration (snd (handleFileChange mk file b s)) = duration s \<and>
   volume (snd (handleFileChange mk file b s)) = volume s \<and>
   isMuted (snd (handleFileChange mk file b s)) = isMuted s \<and>
   playbackRate (snd (handleFileChange mk file b s)) = playbackRate s \<and>
   hue (snd (handleFileChange mk file b s)) = hue s \<and>
   saturation (snd (handleFileChange mk file b s)) = saturation s \<and>
   brightness (snd (handleFileChange mk file b s)) = brightness s \<and>
   darkMode (snd (handleFileChange mk file b s)) = darkMode s \<and>
   isFullscreen (snd (handleFileChange mk file b s)) = isFullscreen s \<and>
   (LoadedMetadata \<notin> set es \<longrightarrow>
      duration (snd (run mk es (handleFileChange mk file b s))) = duration s) \<and>
   (videoRef b = Some v \<longrightarrow>
      duration (snd (handleLoadedMetadata b (snd (handleFileChange mk file b s)))) =
        video_duration v)"
proof -
  have "duration (snd (run mk es (handleFileChange mk file b s))) =
          duration (snd (handleFileChange mk file b s))"
    if "LoadedMetadata \<notin> set es"
    using that by (rule run_duration)
  then show ?thesis
    by (simp add: handleFileChange_def handleLoadedMetadata_def split: option.split)
qed

theorem handleFileChange_frame_witness:
  "LoadedMetadata \<notin> set [FileChange (Some ''b.mp4''), TimeUpdate, Seek 3, SpeedPercent 10] \<and>
   videoRef (demo_browser (Some demo_video)) = Some demo_video \<and>
   duration (snd (run id [FileChange (Some ''b.mp4''), TimeUpdate, Seek 3, SpeedPercent 10]
     (handleFileChange id (Some ''a.mp4'') (demo_browser (Some demo_video))
        (initial\<lparr>duration := 90\<rparr>)))) = 90 \<and>
   duration (snd (handleLoadedMetadata (demo_browser (Some demo_video))
     (snd (handleFileChange id (Some ''a.mp4'') (demo_browser (Some demo_video))
        (initial\<lparr>duration := 90\<rparr>))))) = 60"
  using handleFileChange_frame [of id "Some ''a.mp4''" "demo_browser (Some demo_video)"
      "initial\<lparr>duration := 90\<rparr>"
      "[FileChange (Some ''b.mp4''), TimeUpdate, Seek 3, SpeedPercent 10]" demo_video]
  by (simp add: demo_browser_def demo_video_def)

subsection \<open>Ranges of the stored values\<close>

text \<open>
  \<^verbatim>\<open>handleSeek\<close> and \<^verbatim>\<open>handlePlaybackRate\<close> store the number they are given. From
  a state where the invariant holds, a seek to second 500 of a medium of 60 seconds leaves
  500 in \<open>currentTime\<close>, and a requested rate of 5 leaves 5 in \<open>playbackRate\<close>: the
  invariant is lost either way.
\<close>

theorem handleSeek_unclamped_counterexample:
  "invariant (initial\<lparr>duration := 60\<rparr>) \<and>
   currentTime (snd (handleSeek 500 (demo_browser (Some demo_video))
      (initial\<lparr>duration := 60\<rparr>))) = 500 \<and>
   duration (snd (handleSeek 500 (demo_browser (Some demo_video))
      (initial\<lparr>duration := 60\<rparr>))) = 60 \<and>
   \<not> invariant (snd (handleSeek 500 (demo_browser (Some demo_video))
      (initial\<lparr>duration := 60\<rparr>))) \<and>
   playbackRate (snd (handlePlaybackRate 5 (demo_browser (Some demo_video))
      (initial\<lparr>duration := 60\<rparr>))) = 5 \<and>
   \<not> invariant (snd (handlePlaybackRate 5 (demo_browser (Some demo_video))
      (initial\<lparr>duration := 60\<rparr>)))"
  by (simp add: invariant_def handleSeek_def handlePlaybackRate_def demo_browser_def
      initial_def)

lemma handleSpeedPercent_invariant:
  "invariant s \<Longrightarrow> invariant (snd (handleSpeedPercent p b s))"
  by (auto simp: invariant_def handleSpeedPercent_def Let_def split: option.split)

lemma dispatch_invariant:
  "invariant (snd w) \<Longrightarrow> admissible e w \<Longrightarrow> invariant (snd (dispatch mk e w))"
proof (cases w)
  case (Pair b s)
  assume "invariant (snd w)" and "admissible e w"
  then show ?thesis
    unfolding Pair
    by (cases e)
      (auto simp: invariant_def handlePlayPause_def handleTimeUpdate_def
        handleLoadedMetadata_def handleSeek_def handleVolume_def handleMute_def
        handleFullscreen_def handleFileChange_def handleDarkMode_def
        handleSpeedPercent_def handlePlaybackRate_def playbackRateEffect_def
        handleHue_def handleSaturation_def handleBrightness_def Let_def
        split: option.splits)
qed

lemma run_invariant:
  "invariant (snd w) \<Longrightarrow> admissible_run mk es w \<Longrightarrow> invariant (snd (run mk es w))"
  by (induction es arbitrary: w) (auto simp: dispatch_invariant)

text \<open>
  Claim C2, amended. The handlers store their input as given, and the ranges are those of
  the sliders: with the element present \<^verbatim>\<open>handleSeek(x)\<close> stores \<open>x\<close>, and
  \<^verbatim>\<open>handlePlaybackRate(r)\<close> stores \<open>r\<close>. When the invariant holds before and \<open>x\<close> is
  within 0 and \<open>duration\<close>, as the seek slider has it, \<open>currentTime\<close> is within 0 and
  \<open>duration\<close> after the seek; when \<open>r\<close> is within 0.25 and 2, as the speed slider has it,
  \<open>playbackRate\<close> is within 0.25 and 2 after. The invariant holds of the initial state,
  and from a state where it holds it holds after every sequence of admissible events.
\<close>

theorem slider_bounds_keep_ranges:
  "(videoRef b = Some v \<longrightarrow> currentTime (snd (handleSeek x b s)) = x) \<and>
   playbackRate (snd (handlePlaybackRate r b s)) = r \<and>
   (invariant s \<and> 0 \<le> x \<and> x \<le> duration s \<longrightarrow>
      0 \<le> currentTime (snd (handleSeek x b s)) \<and>
      currentTime (snd (handleSeek x b s)) \<le> duration (snd (handleSeek x b s))) \<and>
   (1 / 4 \<le> r \<and> r \<le> 2 \<longrightarrow>
      1 / 4 \<le> playbackRate (snd (handlePlaybackRate r b s)) \<and>
      playbackRate (snd (handlePlaybackRate r b s)) \<le> 2) \<and>
   invariant initial \<and>
   (invariant s \<and> admissible_run mk es (b, s) \<longrightarrow> invariant (snd (run mk es (b, s))))"
proof -
  have seq: "invariant (snd (run mk es (b, s)))"
    if "invariant s" and "admissible_run mk es (b, s)"
    using run_invariant [of "(b, s)" mk es] that by simp
  have rate: "playbackRate (snd (handlePlaybackRate r b s)) = r"
    by (simp add: handlePlaybackRate_def Let_def split: option.split)
  have seek: "0 \<le> currentTime (snd (handleSeek x b s)) \<and>
      currentTime (snd (handleSeek x b s)) \<le> duration (snd (handleSeek x b s))"
    if "invariant s" and "0 \<le> x" and "x \<le> duration s"
    using that by (simp add: invariant_def handleSeek_def split: option.split)
  have stored: "currentTime (snd (handleSeek x b s)) = x" if "videoRef b = Some v"
    using that by (simp add: handleSeek_def)
  have init: "invariant initial"
    by (simp add: invariant_def initial_def)
  from seq rate seek stored init show ?thesis by simp
qed

theorem slider_bounds_keep_ranges_witness:
  "videoRef (demo_browser (Some demo_video)) = Some demo_video \<and>
   invariant (initial\<lparr>duration := 60\<rparr>) \<and>
   (0::real) \<le> 30 \<and> 30 \<le> duration (initial\<lparr>duration := 60\<rparr>) \<and>
   currentTime (snd (handleSeek 30 (demo_browser (Some demo_video))
      (initial\<lparr>duration := 60\<rparr>))) = 30 \<and>
   (1::real) / 4 \<le> 3 / 2 \<and> (3::real) / 2 \<le> 2 \<and>
   playbackRate (snd (handlePlaybackRate (3 / 2) (demo_browser (Some demo_video))
      (initial\<lparr>duration := 60\<rparr>))) = 3 / 2 \<and>
   admissible_run id
      [PlaybackRate (3 / 2), TimeUpdate, Seek 30, SpeedPercent 90, FileChange (Some ''a.mp4''),
       LoadedMetadata, Mute]
      (demo_browser (Some demo_video), initial\<lparr>duration := 60\<rparr>) \<and>
   invariant (snd (run id
      [PlaybackRate (3 / 2), TimeUpdate, Seek 30, SpeedPercent 90, FileChange (Some ''a.mp4''),
       LoadedMetadata, Mute]
      (demo_browser (Some demo_video), initial\<lparr>duration := 60\<rparr>)))"
proof -
  have inv: "invariant (initial\<lparr>duration := 60\<rparr>)"
    by (simp add: invariant_def initial_def)
  have adm: "admissible_run id
      [PlaybackRate (3 / 2), TimeUpdate, Seek 30, SpeedPercent 90, FileChange (Some ''a.mp4''),
       LoadedMetadata, Mute]
      (demo_browser (Some demo_video), initial\<lparr>duration := 60\<rparr>)"
    by (simp add: demo_browser_def demo_video_def initial_def handlePlaybackRate_def
        playbackRateEffect_def handleTimeUpdate_def handleSeek_def handleSpeedPercent_def
        handleFileChange_def handleLoadedMetadata_def Let_def)
  show ?thesis
    using inv adm
      slider_bounds_keep_ranges [of "demo_browser (Some demo_video)" demo_video 30
        "initial\<lparr>duration := 60\<rparr>" "3 / 2" id
        "[PlaybackRate (3 / 2), TimeUpdate, Seek 30, SpeedPercent 90,
          FileChange (Some ''a.mp4''), LoadedMetadata, Mute]"]
    by (simp add: demo_browser_def)
qed

text \<open>
  A requested rate of 3 is stored as 3, not as the upper bound 2, and a requested rate of
  0.1 is stored as 0.1, not as the lower bound 0.25.
\<close>

theorem handlePlaybackRate_nearest_bound_counterexample:
  "(2::real) < 3 \<and>
   playbackRate (snd (handlePlaybackRate 3 (demo_browser (Some demo_video)) initial)) \<noteq> 2 \<and>
   (1::real) / 10 < 1 / 4 \<and>
   playbackRate (snd (handlePlaybackRate (1 / 10) (demo_browser (Some demo_video)) initial))
     \<noteq> 1 / 4"
  by (simp add: handlePlaybackRate_def demo_browser_def)

text \<open>
  Claim C3, amended. \<^verbatim>\<open>handlePlaybackRate(r)\<close> stores the requested rate \<open>r\<close> as it is,
  within the bounds or not, and gives the same rate to an element that is present. For
  \<open>r\<close> from 0.25 to 2, which is what the speed slider delivers, the stored rate is the
  clamped one; the reset button's rate 1 is stored as 1.
\<close>

theorem handlePlaybackRate_stores_request:
  "playbackRate (snd (handlePlaybackRate r b s)) = r \<and>
   (videoRef b = Some v \<longrightarrow>
      videoRef (fst (handlePlaybackRate r b s)) = Some (v\<lparr>video_playbackRate := r\<rparr>)) \<and>
   (1 / 4 \<le> r \<and> r \<le> 2 \<longrightarrow>
      playbackRate (snd (handlePlaybackRate r b s)) = clamp r (1 / 4) 2) \<and>
   playbackRate (snd (handlePlaybackRate 1 b s)) = 1"
  by (simp add: handlePlaybackRate_def Let_def clamp_def split: option.split)

theorem handlePlaybackRate_stores_request_witness:
  "videoRef (demo_browser (Some demo_video)) = Some demo_video \<and>
   (1::real) / 4 \<le> 3 / 2 \<and> (3::real) / 2 \<le> 2 \<and>
   playbackRate (snd (handlePlaybackRate (3 / 2) (demo_browser (Some demo_video)) initial))
     = 3 / 2 \<and>
   map_option video_playbackRate
     (videoRef (fst (handlePlaybackRate (3 / 2) (demo_browser (Some demo_video)) initial)))
     = Some (3 / 2)"
  using handlePlaybackRate_stores_request [of "3 / 2" "demo_browser (Some demo_video)" initial
      demo_video]
  by (simp add: demo_browser_def clamp_def)

text \<open>
  The three filter handlers store the number they are given: a hue of 250 is stored as
  250, above the slider's maximum of 180.
\<close>

theorem handleHue_unclamped_counterexample:
  "hue (snd (handleHue 250 (demo_browser (Some demo_video)) initial)) = 250 \<and>
   \<not> (250::real) \<le> 180"
  by (simp add: handleHue_def)

text \<open>
  Claim C8, amended. \<^verbatim>\<open>handleHue\<close>, \<^verbatim>\<open>handleSaturation\<close> and
  \<^verbatim>\<open>handleBrightness\<close> store their input as it is and touch nothing else. The stored
  hue is within -180 and 180 when the input is, the stored saturation within 0 and 200 when
  the input is, and the stored brightness within 50 and 200 when the input is: the ranges
  are those of the three sliders.
\<close>

theorem filters_store_input:
  "handleHue x b s = (b, s\<lparr>hue := x\<rparr>) \<and>
   handleSaturation x b s = (b, s\<lparr>saturation := x\<rparr>) \<and>
   handleBrightness x b s = (b, s\<lparr>brightness := x\<rparr>) \<and>
   (- 180 \<le> x \<and> x \<le> 180 \<longrightarrow>
      - 180 \<le> hue (snd (handleHue x b s)) \<and> hue (snd (handleHue x b s)) \<le> 180) \<and>
   (0 \<le> x \<and> x \<le> 200 \<longrightarrow>
      0 \<le> saturation (snd (handleSaturation x b s)) \<and>
      saturation (snd (handleSaturation x b s)) \<le> 200) \<and>
   (50 \<le> x \<and> x \<le> 200 \<longrightarrow>
      50 \<le> brightness (snd (handleBrightness x b s)) \<and>
      brightness (snd (handleBrightness x b s)) \<le> 200)"
  by (simp add: handleHue_def handleSaturation_def handleBrightness_def)

theorem filters_store_input_witness:
  "- 180 \<le> (90::real) \<and> (90::real) \<le> 180 \<and> (0::real) \<le> 90 \<and> (90::real) \<le> 200 \<and>
   (50::real) \<le> 90 \<and>
   hue (snd (handleHue 90 (demo_browser None) initial)) = 90 \<and>
   saturation (snd (handleSaturation 90 (demo_browser None) initial)) = 90 \<and>
   brightness (snd (handleBrightness 90 (demo_browser None) initial)) = 90"
  using filters_store_input [of 90 "demo_browser None" initial]
  by simp

subsection \<open>Without the element\<close>

text \<open>
  With no element behind the ref, \<^verbatim>\<open>handleVolume\<close> still writes \<open>volume\<close> and
  \<open>isMuted\<close>, and \<^verbatim>\<open>handlePlaybackRate\<close> still writes \<open>playbackRate\<close>.
\<close>

theorem handleVolume_absent_counterexample:
  "videoRef (demo_browser None) = None \<and>
   snd (handleVolume (1 / 2) (demo_browser None) initial) \<noteq> initial \<and>
   snd (handlePlaybackRate (3 / 2) (demo_browser None) initial) \<noteq> initial"
proof -
  have "volume (snd (handleVolume (1 / 2) (demo_browser None) initial)) \<noteq> volume initial"
    by (simp add: handleVolume_def initial_def)
  moreover have "playbackRate (snd (handlePlaybackRate (3 / 2) (demo_browser None) initial))
      \<noteq> playbackRate initial"
    by (simp add: handlePlaybackRate_def demo_browser_def initial_def)
  ultimately show ?thesis
    by (auto simp: demo_browser_def)
qed

text \<open>
  Claim C5, amended. With no element behind the ref, \<^verbatim>\<open>handlePlayPause\<close>,
  \<^verbatim>\<open>handleMute\<close>, \<^verbatim>\<open>handleFullscreen\<close>, \<^verbatim>\<open>handleSeek\<close>,
  \<^verbatim>\<open>handleSpeedPercent\<close> and the two notification handlers change nothing at all.
  \<^verbatim>\<open>handleVolume\<close> and \<^verbatim>\<open>handlePlaybackRate\<close> guard only the write to the
  element: they leave the browser side alone and store the volume with its mute flag, and
  the rate.
\<close>

theorem absent_video_guards:
  assumes "videoRef b = None"
  shows "handlePlayPause b s = (b, s) \<and> handleMute b s = (b, s) \<and>
         handleFullscreen b s = (b, s) \<and> handleSeek x b s = (b, s) \<and>
         handleSpeedPercent p b s = (b, s) \<and>
         handleTimeUpdate b s = (b, s) \<and> handleLoadedMetadata b s = (b, s) \<and>
         handleVolume x b s = (b, s\<lparr>volume := x, isMuted := (x = 0)\<rparr>) \<and>
         handlePlaybackRate r b s = (b, s\<lparr>playbackRate := r\<rparr>)"
  using assms
  by (simp add: handlePlayPause_def handleMute_def handleFullscreen_def handleSeek_def
      handleSpeedPercent_def handleTimeUpdate_def handleLoadedMetadata_def handleVolume_def
      handlePlaybackRate_def)

theorem absent_video_guards_witness:
  "videoRef (demo_browser None) = None \<and>
   handlePlayPause (demo_browser None) initial = (demo_browser None, initial) \<and>
   handleSeek 7 (demo_browser None) initial = (demo_browser None, initial) \<and>
   handleSpeedPercent 10 (demo_browser None) (initial\<lparr>duration := 60\<rparr>) =
     (demo_browser None, initial\<lparr>duration := 60\<rparr>) \<and>
   volume (snd (handleVolume (1 / 2) (demo_browser None) initial)) = 1 / 2"
  using absent_video_guards [of "demo_browser None" initial 7 10]
    absent_video_guards [of "demo_browser None" "initial\<lparr>duration := 60\<rparr>" 7 10]
    absent_video_guards [of "demo_browser None" initial "1 / 2" 10]
  by (simp add: demo_browser_def)

end
